theory Spec2Isabelle
  imports Complex_Main "HOL-Library.Word"
begin

section \<open>The live audio session component (LiveView)\<close>

text \<open>
  The component keeps its session in React state cells (\<open>useState\<close>) and in mutable
  refs (\<open>useRef\<close>). Both are fields of one record here, and every handler of the
  component is a function from that record to the updated record.

  Numbers are JavaScript doubles in the source. Times and samples are modelled as
  real numbers: the scheduling arithmetic is read without rounding, and a sample is a
  finite number (no NaN, no infinity). For the Float32 samples of a capture frame the
  products \<open>s * 0x8000\<close> and \<open>s * 0x7FFF\<close> are exact in double precision (24 bits times
  15 bits), so the encoder's arithmetic is the same over the reals.

  Browser objects (audio contexts, audio nodes, the media stream, the live session) are
  opaque handles. What the component does to them is appended to a trace of effects, in
  the order of the calls.
\<close>

type_synonym handle = nat

record AudioBuffer =
  duration :: real

datatype effect =
    GetUserMedia handle
  | DisconnectNode handle
  | CloseContext handle
  | CloseSession handle
  | WireCapture handle handle
  | SourceStart handle AudioBuffer real
  | SendRealtimeInput string string
  | ConsoleLog string
  | ConsoleError string

text \<open>
  \<open>GetUserMedia stream\<close> stands for the microphone request of \<open>connect\<close> resolving
  with the media stream \<open>stream\<close>: from then on the microphone is captured. The
  component makes no call on a stream or its tracks afterwards (it has no
  \<open>getTracks\<close> and no \<open>stop\<close>), so the effects have no such call.
  \<open>WireCapture source processor\<close> stands for the two \<open>connect\<close> calls that close
  \<open>onopen\<close>; \<open>SourceStart ctx buffer startTime\<close> for a buffer source created on the
  output context \<open>ctx\<close>, given \<open>buffer\<close>, connected to the destination and started with
  \<open>source.start(startTime)\<close>; \<open>SendRealtimeInput mimeType data\<close> for the
  \<open>sendRealtimeInput\<close> call queued on the session promise.
\<close>

record LiveView =
  isConnected :: bool
  isMuted :: bool
  volume :: real
  error :: "string option"
  inputAudioContextRef :: "handle option"
  outputAudioContextRef :: "handle option"
  inputSourceRef :: "handle option"
  processorRef :: "handle option"
  nextStartTimeRef :: real
  sessionPromiseRef :: "handle option"
  currentSessionRef :: "handle option"
  closure_isMuted :: "bool option"
  effects :: "effect list"

text \<open>
  \<open>closure_isMuted\<close> is not a cell of the source. The callbacks handed to
  \<open>ai.live.connect\<close> are closures created inside one call of \<open>connect\<close>, and
  \<open>connect\<close> belongs to one render of the component: the name \<open>isMuted\<close> inside
  \<open>onaudioprocess\<close> is the constant of that render, fixed when \<open>connect\<close> was called.
  The field holds that constant for the callbacks of the latest call that handed
  callbacks over (\<open>None\<close> before the first); the state cell \<open>isMuted\<close> is what
  \<open>setIsMuted\<close> changes and what the buttons show.
\<close>

definition initial :: LiveView where
  "initial = \<lparr> isConnected = False, isMuted = False, volume = 0, error = None,
      inputAudioContextRef = None, outputAudioContextRef = None,
      inputSourceRef = None, processorRef = None, nextStartTimeRef = 0,
      sessionPromiseRef = None, currentSessionRef = None,
      closure_isMuted = None, effects = [] \<rparr>"

subsection \<open>The imported audio helpers\<close>

text \<open>
  \<open>base64ToUint8Array\<close>, \<open>decodeAudioData\<close> and \<open>arrayBufferToBase64\<close> come from
  \<open>../utils/audio-processor\<close>, whose text is not among the sources. They are
  parameters of the model. The two decoding helpers either return or throw; a throw is
  the \<open>Inl\<close> branch.
\<close>

datatype exn = Exn string

record audio_processor =
  base64ToUint8Array :: "string \<Rightarrow> exn + 8 word list"
  decodeAudioData :: "8 word list \<Rightarrow> handle \<Rightarrow> nat \<Rightarrow> exn + AudioBuffer"
  arrayBufferToBase64 :: "8 word list \<Rightarrow> string"

subsection \<open>cleanup\<close>

definition release :: "(handle \<Rightarrow> effect) \<Rightarrow> handle option \<Rightarrow> effect list" where
  "release f r = (case r of None \<Rightarrow> [] | Some h \<Rightarrow> [f h])"

text \<open>The calls \<open>cleanup\<close> makes on the objects the refs hold, in its order.\<close>

definition releases :: "LiveView \<Rightarrow> effect list" where
  "releases s =
     release DisconnectNode (processorRef s)
     @ release DisconnectNode (inputSourceRef s)
     @ release CloseContext (inputAudioContextRef s)
     @ release CloseContext (outputAudioContextRef s)
     @ release CloseSession (currentSessionRef s)"

definition cleanup :: "LiveView \<Rightarrow> LiveView" where
  "cleanup s =
     s \<lparr> processorRef := None,
         inputSourceRef := None,
         inputAudioContextRef := None,
         outputAudioContextRef := None,
         currentSessionRef := None,
         sessionPromiseRef := None,
         isConnected := False,
         volume := 0,
         effects := effects s @ releases s \<rparr>"

subsection \<open>The capture callback\<close>

text \<open>
  Storing a number into an \<open>Int16Array\<close> applies ToInt16: the number is truncated
  towards zero and reduced modulo \<open>2 ^ 16\<close>. \<open>sint\<close> reads the stored element back.
\<close>

definition jsTrunc :: "real \<Rightarrow> int" where
  "jsTrunc x = (if x < 0 then \<lceil>x\<rceil> else \<lfloor>x\<rfloor>)"

definition ToInt16 :: "real \<Rightarrow> 16 word" where
  "ToInt16 x = word_of_int (jsTrunc x)"

definition clampSample :: "real \<Rightarrow> real" where
  "clampSample x = max (- 1) (min 1 x)"

definition scaleSample :: "real \<Rightarrow> real" where
  "scaleSample s = (if s < 0 then s * 32768 else s * 32767)"

definition encodeInt16 :: "real list \<Rightarrow> 16 word list" where
  "encodeInt16 inputData = map (\<lambda>x. ToInt16 (scaleSample (clampSample x))) inputData"

text \<open>
  \<open>int16.buffer\<close>: the bytes behind the array, two per element, low byte first (typed
  arrays use the platform's byte order, little-endian on the platforms browsers run on).
\<close>

definition int16Bytes :: "16 word \<Rightarrow> 8 word list" where
  "int16Bytes w = [ucast w, ucast (drop_bit 8 w)]"

definition bufferBytes :: "16 word list \<Rightarrow> 8 word list" where
  "bufferBytes ws = concat (map int16Bytes ws)"

definition rms :: "real list \<Rightarrow> real" where
  "rms inputData =
     sqrt (foldl (\<lambda>sm x. sm + x * x) 0 inputData / real (length inputData))"

text \<open>
  The callback is created with a buffer size of 4096, so a frame is never empty; on an
  empty frame the source would divide zero by zero.
\<close>

definition onaudioprocess ::
  "audio_processor \<Rightarrow> bool \<Rightarrow> real list \<Rightarrow> LiveView \<Rightarrow> LiveView" where
  "onaudioprocess ap isMuted_c inputData s =
     (let s1 = s \<lparr> volume := rms inputData \<rparr> in
      if isMuted_c then s1
      else s1 \<lparr> effects := effects s1 @
             [SendRealtimeInput ''audio/pcm;rate=16000''
                (arrayBufferToBase64 ap (bufferBytes (encodeInt16 inputData)))] \<rparr>)"

subsection \<open>The inbound message callback\<close>

record LiveServerMessage =
  inlineData :: "string option"
  interrupted :: bool

text \<open>
  \<open>inlineData\<close> is \<open>msg.serverContent?.modelTurn?.parts?.[0]?.inlineData?.data\<close>
  (\<open>None\<close> when a link of the chain is undefined); \<open>interrupted\<close> is the truth value
  of \<open>msg.serverContent?.interrupted\<close>. An empty string is falsy, as \<open>undefined\<close> is.

  The callback has two blocks, in this order: the audio block, whose \<open>try\<close> logs and
  swallows whatever the decoding throws (\<open>decodeChunk\<close> is the decoding, the first two
  statements of the \<open>try\<close>), and the interruption block. \<open>currentTime\<close> is
  what the output context's clock reads when the audio block asks for it. One call of
  the callback is one step of the model.
\<close>

definition decodeChunk :: "audio_processor \<Rightarrow> handle \<Rightarrow> string \<Rightarrow> exn + AudioBuffer" where
  "decodeChunk ap ctx base64Audio =
     (case base64ToUint8Array ap base64Audio of
        Inl e \<Rightarrow> Inl e
      | Inr audioBytes \<Rightarrow> decodeAudioData ap audioBytes ctx 24000)"

definition handleAudioOutput ::
  "audio_processor \<Rightarrow> real \<Rightarrow> LiveServerMessage \<Rightarrow> LiveView \<Rightarrow> LiveView" where
  "handleAudioOutput ap currentTime msg s =
     (case inlineData msg of
        None \<Rightarrow> s
      | Some base64Audio \<Rightarrow>
          (case outputAudioContextRef s of
             None \<Rightarrow> s
           | Some ctx \<Rightarrow>
               if base64Audio = [] then s
               else
                 (case decodeChunk ap ctx base64Audio of
                    Inl e \<Rightarrow>
                      s \<lparr> effects := effects s @ [ConsoleError ''Audio decode error''] \<rparr>
                  | Inr audioBuffer \<Rightarrow>
                      (let startTime = max (nextStartTimeRef s) currentTime in
                       s \<lparr> nextStartTimeRef := startTime + duration audioBuffer,
                           effects := effects s @ [SourceStart ctx audioBuffer startTime] \<rparr>))))"

definition handleInterruption :: "LiveServerMessage \<Rightarrow> LiveView \<Rightarrow> LiveView" where
  "handleInterruption msg s =
     (if interrupted msg
      then s \<lparr> nextStartTimeRef := 0,
               effects := effects s @ [ConsoleLog ''Model interrupted''] \<rparr>
      else s)"

definition onmessage ::
  "audio_processor \<Rightarrow> real \<Rightarrow> LiveServerMessage \<Rightarrow> LiveView \<Rightarrow> LiveView" where
  "onmessage ap currentTime msg s = handleInterruption msg (handleAudioOutput ap currentTime msg s)"

subsection \<open>The other session callbacks\<close>

definition onopen :: "handle \<Rightarrow> handle \<Rightarrow> LiveView \<Rightarrow> LiveView" where
  "onopen source processor s =
     (let s1 = s \<lparr> isConnected := True,
                   effects := effects s @ [ConsoleLog ''Live Session Opened''] \<rparr> in
      case inputAudioContextRef s1 of
        None \<Rightarrow> s1
      | Some ctx \<Rightarrow>
          s1 \<lparr> inputSourceRef := Some source,
               processorRef := Some processor,
               effects := effects s1 @ [WireCapture source processor] \<rparr>)"

definition onclose :: "LiveView \<Rightarrow> LiveView" where
  "onclose s = cleanup (s \<lparr> effects := effects s @ [ConsoleLog ''Session Closed''] \<rparr>)"

definition onerror :: "LiveView \<Rightarrow> LiveView" where
  "onerror s =
     cleanup (s \<lparr> error := Some ''Connection error. Please try again.'',
                  effects := effects s @ [ConsoleError ''Session Error''] \<rparr>)"

subsection \<open>connect\<close>

text \<open>
  \<open>connect\<close> clears the error, then runs its \<open>try\<close> block: the microphone request,
  the two audio contexts, the client and the call of \<open>ai.live.connect\<close>. A
  \<open>connect_run\<close> says how far the block got and what the environment handed back: the
  block either throws (the microphone request, the first context, the second context,
  or a later statement, once both contexts exist), with the thrown error's \<open>message\<close>
  (empty when it has none), or it runs to its end with the two contexts and the session
  promise. Every run that gets past the microphone request holds the media stream it
  resolved with (the first handle of the run); the stream is a local constant of
  \<open>connect\<close>, kept by no ref. The promise is not awaited inside the block: a session that fails to open
  after that reports through \<open>onerror\<close>. The callbacks, and with them the constant
  \<open>isMuted\<close> they close over, exist once the block has run to its end.
\<close>

datatype connect_run =
    Throws_getUserMedia string
  | Throws_inputContext handle string
  | Throws_outputContext handle handle string
  | Throws_afterContexts handle handle handle string
  | Returns handle handle handle handle

definition connect_catch :: "string \<Rightarrow> LiveView \<Rightarrow> LiveView" where
  "connect_catch message s =
     cleanup (s \<lparr> error := Some (if message = [] then ''Failed to access microphone or connect.''
                                 else message),
                  effects := effects s @ [ConsoleError message] \<rparr>)"

fun connect :: "connect_run \<Rightarrow> LiveView \<Rightarrow> LiveView" where
  "connect (Throws_getUserMedia m) s = connect_catch m (s \<lparr> error := None \<rparr>)"
| "connect (Throws_inputContext stream m) s =
     connect_catch m (s \<lparr> error := None,
                          effects := effects s @ [GetUserMedia stream] \<rparr>)"
| "connect (Throws_outputContext stream inCtx m) s =
     connect_catch m (s \<lparr> error := None,
                          inputAudioContextRef := Some inCtx,
                          effects := effects s @ [GetUserMedia stream] \<rparr>)"
| "connect (Throws_afterContexts stream inCtx outCtx m) s =
     connect_catch m (s \<lparr> error := None,
                          inputAudioContextRef := Some inCtx,
                          outputAudioContextRef := Some outCtx,
                          effects := effects s @ [GetUserMedia stream] \<rparr>)"
| "connect (Returns stream inCtx outCtx sessionPromise) s =
     s \<lparr> error := None, closure_isMuted := Some (isMuted s),
         inputAudioContextRef := Some inCtx,
         outputAudioContextRef := Some outCtx,
         sessionPromiseRef := Some sessionPromise,
         effects := effects s @ [GetUserMedia stream] \<rparr>"

definition toggleConnection :: "connect_run \<Rightarrow> LiveView \<Rightarrow> LiveView" where
  "toggleConnection r s = (if isConnected s then cleanup s else connect r s)"

subsection \<open>Events\<close>

text \<open>
  Everything that can run code of the component: the two buttons and the mute button,
  the callbacks of the session, the capture callback, and the resolution of the session
  promise (\<open>sessionPromise.then(sess => { currentSessionRef.current = sess; })\<close>).
  \<open>PowerOff\<close> is a direct call of \<open>cleanup\<close>: the power button, or the effect that runs
  when the component is unmounted. The capture callback sees the \<open>isMuted\<close> of its
  closure.
\<close>

datatype event =
    ToggleConnection connect_run
  | PowerOff
  | ToggleMute
  | OnOpen handle handle
  | SessionResolved handle
  | OnAudioProcess "real list"
  | OnMessage real LiveServerMessage
  | OnClose
  | OnError

fun step :: "audio_processor \<Rightarrow> LiveView \<Rightarrow> event \<Rightarrow> LiveView" where
  "step ap s (ToggleConnection r) = toggleConnection r s"
| "step ap s PowerOff = cleanup s"
| "step ap s ToggleMute = s \<lparr> isMuted := \<not> isMuted s \<rparr>"
| "step ap s (OnOpen source processor) = onopen source processor s"
| "step ap s (SessionResolved sess) = s \<lparr> currentSessionRef := Some sess \<rparr>"
| "step ap s (OnAudioProcess inputData) =
     (case closure_isMuted s of
        None \<Rightarrow> s
      | Some m \<Rightarrow> onaudioprocess ap m inputData s)"
| "step ap s (OnMessage currentTime msg) = onmessage ap currentTime msg s"
| "step ap s OnClose = onclose s"
| "step ap s OnError = onerror s"

definition run :: "audio_processor \<Rightarrow> LiveView \<Rightarrow> event list \<Rightarrow> LiveView" where
  "run ap s es = foldl (step ap) s es"

definition is_interruption :: "event \<Rightarrow> bool" where
  "is_interruption e = (case e of OnMessage currentTime msg \<Rightarrow> interrupted msg | _ \<Rightarrow> False)"

definition throws :: "connect_run \<Rightarrow> bool" where
  "throws r = (case r of Returns stream inCtx outCtx sessionPromise \<Rightarrow> False | _ \<Rightarrow> True)"

text \<open>What the trace says was scheduled on the audio sink, and what was sent.\<close>

fun scheduled :: "effect list \<Rightarrow> (AudioBuffer \<times> real) list" where
  "scheduled [] = []"
| "scheduled (SourceStart ctx b t # es) = (b, t) # scheduled es"
| "scheduled (e # es) = scheduled es"

fun sends :: "effect list \<Rightarrow> string list" where
  "sends [] = []"
| "sends (SendRealtimeInput mime d # es) = d # sends es"
| "sends (e # es) = sends es"

text \<open>
  The media streams the trace says were acquired, and the objects it says a releasing
  call (\<open>disconnect\<close>, \<open>close\<close>) was made on. \<open>held\<close> lists what the five resource
  refs hold.
\<close>

fun acquired :: "effect list \<Rightarrow> handle list" where
  "acquired [] = []"
| "acquired (GetUserMedia stream # es) = stream # acquired es"
| "acquired (e # es) = acquired es"

fun released :: "effect list \<Rightarrow> handle list" where
  "released [] = []"
| "released (DisconnectNode h # es) = h # released es"
| "released (CloseContext h # es) = h # released es"
| "released (CloseSession h # es) = h # released es"
| "released (e # es) = released es"

definition held :: "LiveView \<Rightarrow> handle list" where
  "held s = concat (map (\<lambda>r. case r of None \<Rightarrow> [] | Some h \<Rightarrow> [h])
     [processorRef s, inputSourceRef s, inputAudioContextRef s, outputAudioContextRef s,
      currentSessionRef s])"

subsection \<open>An instance of the helpers\<close>

text \<open>
  The theorems below hold for every \<open>audio_processor\<close>. To run the model on concrete
  inputs some instance is needed; this one is a stand-in, not the repository's helpers:
  a payload's characters are its bytes, a byte sequence of odd length is refused
  (16-bit samples), and a buffer lasts its number of samples over the sample rate.
\<close>

definition stub_ap :: audio_processor where
  "stub_ap = \<lparr>
     base64ToUint8Array = (\<lambda>s. Inr (map (\<lambda>c. of_nat (of_char c)) s)),
     decodeAudioData = (\<lambda>bytes ctx rate.
        if odd (length bytes) then Inl (Exn ''byte length is not a multiple of 2'')
        else Inr \<lparr> duration = real (length bytes div 2) / real rate \<rparr>),
     arrayBufferToBase64 = (\<lambda>bytes. map (\<lambda>b. char_of (unat b)) bytes) \<rparr>"

definition chunk :: "nat \<Rightarrow> bool \<Rightarrow> LiveServerMessage" where
  "chunk n i = \<lparr> inlineData = Some (replicate n (CHR ''A'')), interrupted = i \<rparr>"

section \<open>Properties\<close>

lemma scheduled_append: "scheduled (xs @ ys) = scheduled xs @ scheduled ys"
  by (induction xs rule: scheduled.induct) simp_all

lemma sends_append: "sends (xs @ ys) = sends xs @ sends ys"
  by (induction xs rule: sends.induct) simp_all

subsection \<open>Facts about the message callback\<close>

lemma decodeChunk_stub:
  "decodeChunk stub_ap ctx (replicate n (CHR ''A'')) =
     (if odd n then Inl (Exn ''byte length is not a multiple of 2'')
      else Inr \<lparr> duration = real (n div 2) / 24000 \<rparr>)"
  by (simp add: decodeChunk_def stub_ap_def)

lemma handleAudioOutput_decoded:
  assumes "inlineData msg = Some p" "p \<noteq> []" "outputAudioContextRef s = Some ctx"
    "decodeChunk ap ctx p = Inr b"
  shows "handleAudioOutput ap now msg s =
     s \<lparr> nextStartTimeRef := max (nextStartTimeRef s) now + duration b,
         effects := effects s @ [SourceStart ctx b (max (nextStartTimeRef s) now)] \<rparr>"
  using assms by (simp add: handleAudioOutput_def Let_def)

lemma handleAudioOutput_failed:
  assumes "inlineData msg = Some p" "p \<noteq> []" "outputAudioContextRef s = Some ctx"
    "decodeChunk ap ctx p = Inl e"
  shows "handleAudioOutput ap now msg s =
     s \<lparr> effects := effects s @ [ConsoleError ''Audio decode error''] \<rparr>"
  using assms by (simp add: handleAudioOutput_def)

lemma handleAudioOutput_skip:
  assumes "inlineData msg = None \<or> inlineData msg = Some [] \<or> outputAudioContextRef s = None"
  shows "handleAudioOutput ap now msg s = s"
  using assms by (auto simp add: handleAudioOutput_def split: option.splits)

lemma handleInterruption_scheduled:
  "scheduled (effects (handleInterruption msg s)) = scheduled (effects s)"
  by (simp add: handleInterruption_def scheduled_append)

lemma handleInterruption_ctx:
  "outputAudioContextRef (handleInterruption msg s) = outputAudioContextRef s"
  by (simp add: handleInterruption_def)

lemma handleAudioOutput_ctx:
  "outputAudioContextRef (handleAudioOutput ap now msg s) = outputAudioContextRef s"
  by (simp add: handleAudioOutput_def Let_def split: option.splits sum.splits)

lemma onmessage_ctx:
  "outputAudioContextRef (onmessage ap now msg s) = outputAudioContextRef s"
  by (simp add: onmessage_def handleInterruption_ctx handleAudioOutput_ctx)

subsection \<open>C1: what an interruption does to the cursor\<close>

text \<open>
  C1 says that an interruption resets \<open>nextStartTimeRef\<close> to the output clock's current
  time, so that a cursor of 5.0 s under a clock reading 2.0 s becomes 2.0 s. The
  interruption block assigns the constant 0: in that scenario the cursor is 0 after the
  callback, not 2.
\<close>

theorem C1_interruption_resets_to_clock_counterexample:
  "nextStartTimeRef (onmessage stub_ap 2 \<lparr> inlineData = None, interrupted = True \<rparr>
      (initial \<lparr> outputAudioContextRef := Some 1, nextStartTimeRef := 5 \<rparr>)) \<noteq> 2"
  by (simp add: onmessage_def handleInterruption_def handleAudioOutput_def initial_def)

text \<open>
  C1, amended: for every cursor value, every clock time and every message that carries
  the interruption flag, the cursor is 0 after the callback. The next chunk is then
  scheduled at \<open>max 0 now'\<close>: when it decodes, and the clock does not read a negative
  time, it starts at the clock's time \<open>now'\<close> of that moment.
\<close>

theorem C1_interruption_resets_cursor_to_zero:
  assumes "interrupted msg"
  shows "nextStartTimeRef (onmessage ap currentTime msg s) = 0
    \<and> (outputAudioContextRef s = Some ctx \<and> inlineData msg' = Some p \<and> p \<noteq> []
          \<and> decodeChunk ap ctx p = Inr b \<and> 0 \<le> now' \<longrightarrow>
          scheduled (effects (onmessage ap now' msg' (onmessage ap currentTime msg s)))
            = scheduled (effects (onmessage ap currentTime msg s)) @ [(b, now')])"
proof -
  let ?s' = "onmessage ap currentTime msg s"
  have z: "nextStartTimeRef ?s' = 0"
    using assms by (simp add: onmessage_def handleInterruption_def)
  have "scheduled (effects (onmessage ap now' msg' ?s')) = scheduled (effects ?s') @ [(b, now')]"
    if h: "outputAudioContextRef s = Some ctx" "inlineData msg' = Some p" "p \<noteq> []"
       "decodeChunk ap ctx p = Inr b" "0 \<le> now'"
  proof -
    have c: "outputAudioContextRef ?s' = Some ctx"
      using h by (simp add: onmessage_ctx)
    have "handleAudioOutput ap now' msg' ?s' =
        ?s' \<lparr> nextStartTimeRef := max (nextStartTimeRef ?s') now' + duration b,
           effects := effects ?s' @ [SourceStart ctx b (max (nextStartTimeRef ?s') now')] \<rparr>"
      using h c by (intro handleAudioOutput_decoded) auto
    then show ?thesis
      using h z
      by (simp add: onmessage_def[of ap now' msg'] handleInterruption_scheduled scheduled_append)
  qed
  with z show ?thesis by blast
qed

theorem C1_interruption_resets_cursor_to_zero_witness:
  "interrupted (chunk 0 True)
   \<and> nextStartTimeRef (onmessage stub_ap 2 (chunk 0 True)
        (initial \<lparr> outputAudioContextRef := Some 1, nextStartTimeRef := 5 \<rparr>)) = 0
   \<and> scheduled (effects (onmessage stub_ap 2 (chunk 48000 False)
        (onmessage stub_ap 2 (chunk 0 True)
          (initial \<lparr> outputAudioContextRef := Some 1, nextStartTimeRef := 5 \<rparr>))))
      = [(\<lparr> duration = 1 \<rparr>, 2)]"
proof -
  let ?s = "initial \<lparr> outputAudioContextRef := Some 1, nextStartTimeRef := 5 \<rparr>"
  have i: "interrupted (chunk 0 True)" by (simp add: chunk_def)
  have e: "scheduled (effects (onmessage stub_ap 2 (chunk 0 True) ?s)) = []"
    by (simp add: onmessage_def handleInterruption_scheduled handleAudioOutput_def
        chunk_def initial_def)
  have d: "decodeChunk stub_ap 1 (replicate 48000 (CHR ''A'')) = Inr \<lparr> duration = 1 \<rparr>"
    by (simp add: decodeChunk_stub)
  have c: "outputAudioContextRef ?s = Some 1"
    "inlineData (chunk 48000 False) = Some (replicate 48000 (CHR ''A''))"
    by (simp_all add: chunk_def initial_def)
  from C1_interruption_resets_cursor_to_zero
    [OF i, of stub_ap 2 ?s 1 "chunk 48000 False" "replicate 48000 (CHR ''A'')"
      "\<lparr> duration = 1 \<rparr>" 2]
  show ?thesis using i e d c by simp
qed

subsection \<open>C2: a decoded chunk starts at the later of cursor and clock\<close>

lemma onmessage_decoded_scheduled:
  assumes "inlineData msg = Some p" "p \<noteq> []" "outputAudioContextRef s = Some ctx"
    "decodeChunk ap ctx p = Inr b"
  shows "scheduled (effects (onmessage ap now msg s))
           = scheduled (effects s) @ [(b, max (nextStartTimeRef s) now)]"
  using handleAudioOutput_decoded [OF assms, of now]
  by (simp add: onmessage_def handleInterruption_scheduled scheduled_append)

lemma onmessage_decoded_cursor:
  assumes "inlineData msg = Some p" "p \<noteq> []" "outputAudioContextRef s = Some ctx"
    "decodeChunk ap ctx p = Inr b" "\<not> interrupted msg"
  shows "nextStartTimeRef (onmessage ap now msg s) = max (nextStartTimeRef s) now + duration b"
  using handleAudioOutput_decoded [OF assms(1-4), of now] assms(5)
  by (simp add: onmessage_def handleInterruption_def)

text \<open>
  C2: for every message whose payload decodes (a non-empty payload, an output context
  in place, a decoding that returns buffer \<open>b\<close>), the audio block starts \<open>b\<close> at
  \<open>max (nextStartTimeRef s) now\<close> and sets the cursor to that time plus the duration of
  \<open>b\<close>; this is the cursor after the callback when the message does not also carry the
  interruption flag. For a second such chunk that arrives no later than the first one
  ends, its start is the end of the first: no overlap and no gap. In particular, with a
  cursor not above 0, the clock at 0 for both, and durations 1 and 1/2, the starts are 0
  and 1 and the cursor ends at 3/2.
\<close>

theorem C2_chunk_scheduled_back_to_back:
  assumes m: "inlineData msg = Some p" "p \<noteq> []"
    and c: "outputAudioContextRef s = Some ctx"
    and d: "decodeChunk ap ctx p = Inr b"
  shows "effects (handleAudioOutput ap now msg s)
           = effects s @ [SourceStart ctx b (max (nextStartTimeRef s) now)]
    \<and> nextStartTimeRef (handleAudioOutput ap now msg s)
           = max (nextStartTimeRef s) now + duration b
    \<and> scheduled (effects (onmessage ap now msg s))
           = scheduled (effects s) @ [(b, max (nextStartTimeRef s) now)]
    \<and> (\<not> interrupted msg \<longrightarrow>
          nextStartTimeRef (onmessage ap now msg s) = max (nextStartTimeRef s) now + duration b)
    \<and> (\<not> interrupted msg \<and> inlineData msg2 = Some p2 \<and> p2 \<noteq> []
          \<and> decodeChunk ap ctx p2 = Inr b2 \<and> \<not> interrupted msg2
          \<and> now2 \<le> max (nextStartTimeRef s) now + duration b \<longrightarrow>
          scheduled (effects (onmessage ap now2 msg2 (onmessage ap now msg s)))
            = scheduled (effects s) @ [(b, max (nextStartTimeRef s) now),
                 (b2, max (nextStartTimeRef s) now + duration b)]
          \<and> nextStartTimeRef (onmessage ap now2 msg2 (onmessage ap now msg s))
            = max (nextStartTimeRef s) now + duration b + duration b2)
    \<and> (\<not> interrupted msg \<and> inlineData msg2 = Some p2 \<and> p2 \<noteq> []
          \<and> decodeChunk ap ctx p2 = Inr b2 \<and> \<not> interrupted msg2
          \<and> nextStartTimeRef s \<le> 0 \<and> now = 0 \<and> now2 = 0
          \<and> duration b = 1 \<and> duration b2 = 1 / 2 \<longrightarrow>
          scheduled (effects (onmessage ap now2 msg2 (onmessage ap now msg s)))
            = scheduled (effects s) @ [(b, 0), (b2, 1)]
          \<and> nextStartTimeRef (onmessage ap now2 msg2 (onmessage ap now msg s)) = 3 / 2)"
proof -
  let ?t = "max (nextStartTimeRef s) now"
  let ?s' = "onmessage ap now msg s"
  note h = handleAudioOutput_decoded [OF m c d, of now]
  have 1: "effects (handleAudioOutput ap now msg s) = effects s @ [SourceStart ctx b ?t]"
    by (simp add: h)
  have 2: "nextStartTimeRef (handleAudioOutput ap now msg s) = ?t + duration b"
    by (simp add: h)
  have 3: "scheduled (effects ?s') = scheduled (effects s) @ [(b, ?t)]"
    by (rule onmessage_decoded_scheduled [OF m c d])
  have 4: "nextStartTimeRef ?s' = ?t + duration b" if "\<not> interrupted msg"
    by (rule onmessage_decoded_cursor [OF m c d that])
  have two: "scheduled (effects (onmessage ap now2 msg2 ?s'))
            = scheduled (effects s) @ [(b, ?t), (b2, max (?t + duration b) now2)]
          \<and> nextStartTimeRef (onmessage ap now2 msg2 ?s')
            = max (?t + duration b) now2 + duration b2"
    if n: "\<not> interrupted msg" and m2: "inlineData msg2 = Some p2" "p2 \<noteq> []"
      and d2: "decodeChunk ap ctx p2 = Inr b2" and n2: "\<not> interrupted msg2"
  proof -
    have c': "outputAudioContextRef ?s' = Some ctx"
      by (simp add: onmessage_ctx c)
    show ?thesis
      using onmessage_decoded_scheduled [OF m2 c' d2, of now2]
        onmessage_decoded_cursor [OF m2 c' d2 n2, of now2] 3 4 [OF n]
      by simp
  qed
  have 5: "scheduled (effects (onmessage ap now2 msg2 ?s'))
            = scheduled (effects s) @ [(b, ?t), (b2, ?t + duration b)]
          \<and> nextStartTimeRef (onmessage ap now2 msg2 ?s') = ?t + duration b + duration b2"
    if "\<not> interrupted msg" "inlineData msg2 = Some p2" "p2 \<noteq> []"
      "decodeChunk ap ctx p2 = Inr b2" "\<not> interrupted msg2" "now2 \<le> ?t + duration b"
    using two [OF that(1-5)] that(6) by (simp add: max_absorb1)
  have 6: "scheduled (effects (onmessage ap now2 msg2 ?s'))
            = scheduled (effects s) @ [(b, 0), (b2, 1)]
          \<and> nextStartTimeRef (onmessage ap now2 msg2 ?s') = 3 / 2"
    if "\<not> interrupted msg" "inlineData msg2 = Some p2" "p2 \<noteq> []"
      "decodeChunk ap ctx p2 = Inr b2" "\<not> interrupted msg2"
      "nextStartTimeRef s \<le> 0" "now = 0" "now2 = 0" "duration b = 1" "duration b2 = 1 / 2"
    using two [OF that(1-5)] that(6-10) by (simp add: max_absorb1 max_absorb2)
  from 1 2 3 4 5 6 show ?thesis by blast
qed

theorem C2_chunk_scheduled_back_to_back_witness:
  "scheduled (effects (onmessage stub_ap 0 (chunk 24000 False)
      (onmessage stub_ap 0 (chunk 48000 False) (initial \<lparr> outputAudioContextRef := Some 1 \<rparr>))))
     = [(\<lparr> duration = 1 \<rparr>, 0), (\<lparr> duration = 1 / 2 \<rparr>, 1)]
   \<and> nextStartTimeRef (onmessage stub_ap 0 (chunk 24000 False)
      (onmessage stub_ap 0 (chunk 48000 False) (initial \<lparr> outputAudioContextRef := Some 1 \<rparr>)))
     = 3 / 2"
proof -
  let ?s = "initial \<lparr> outputAudioContextRef := Some 1 \<rparr>"
  have m: "inlineData (chunk 48000 False) = Some (replicate 48000 (CHR ''A''))"
      "replicate 48000 (CHR ''A'') \<noteq> []"
    by (simp_all add: chunk_def)
  have c: "outputAudioContextRef ?s = Some 1" by (simp add: initial_def)
  have d: "decodeChunk stub_ap 1 (replicate 48000 (CHR ''A'')) = Inr \<lparr> duration = 1 \<rparr>"
    by (simp add: decodeChunk_stub)
  have m2: "inlineData (chunk 24000 False) = Some (replicate 24000 (CHR ''A''))"
      "replicate 24000 (CHR ''A'') \<noteq> []" "\<not> interrupted (chunk 24000 False)"
      "\<not> interrupted (chunk 48000 False)"
    by (simp_all add: chunk_def)
  have d2: "decodeChunk stub_ap 1 (replicate 24000 (CHR ''A'')) = Inr \<lparr> duration = 1 / 2 \<rparr>"
    by (simp add: decodeChunk_stub)
  have i: "nextStartTimeRef ?s \<le> 0" "scheduled (effects ?s) = []" by (simp_all add: initial_def)
  from C2_chunk_scheduled_back_to_back
    [OF m c d, of 0 "chunk 24000 False" "replicate 24000 (CHR ''A'')" "\<lparr> duration = 1 / 2 \<rparr>" 0]
  show ?thesis using m2 d2 i by simp
qed

subsection \<open>C7: a chunk that does not decode\<close>

text \<open>
  C7: when the decoding of a message's payload throws, the audio block changes nothing
  but the console: the state after it is the state before it with one
  \<open>console.error\<close> appended to the trace. So the cursor keeps its value, nothing is
  started on the sink, the error shown to the user and the connected flag are as before,
  and the output context and the session stay in place for the next message. When the
  message does not also carry the interruption flag, this is the whole effect of the
  callback.
\<close>

theorem C7_decode_failure_is_logged_and_dropped:
  assumes m: "inlineData msg = Some p" "p \<noteq> []"
    and c: "outputAudioContextRef s = Some ctx"
    and d: "decodeChunk ap ctx p = Inl e"
  shows "handleAudioOutput ap now msg s
           = s \<lparr> effects := effects s @ [ConsoleError ''Audio decode error''] \<rparr>
    \<and> nextStartTimeRef (handleAudioOutput ap now msg s) = nextStartTimeRef s
    \<and> scheduled (effects (onmessage ap now msg s)) = scheduled (effects s)
    \<and> error (onmessage ap now msg s) = error s
    \<and> isConnected (onmessage ap now msg s) = isConnected s
    \<and> outputAudioContextRef (onmessage ap now msg s) = outputAudioContextRef s
    \<and> currentSessionRef (onmessage ap now msg s) = currentSessionRef s
    \<and> (\<not> interrupted msg \<longrightarrow>
          onmessage ap now msg s
            = s \<lparr> effects := effects s @ [ConsoleError ''Audio decode error''] \<rparr>)"
  using handleAudioOutput_failed [OF m c d, of now]
  by (simp add: onmessage_def handleInterruption_def scheduled_append)

theorem C7_decode_failure_is_logged_and_dropped_witness:
  "onmessage stub_ap 3 (chunk 5 False)
      (initial \<lparr> outputAudioContextRef := Some 1, nextStartTimeRef := 7 \<rparr>)
     = initial \<lparr> outputAudioContextRef := Some 1, nextStartTimeRef := 7,
         effects := [ConsoleError ''Audio decode error''] \<rparr>"
proof -
  let ?s = "initial \<lparr> outputAudioContextRef := Some 1, nextStartTimeRef := 7 \<rparr>"
  have m: "inlineData (chunk 5 False) = Some (replicate 5 (CHR ''A''))"
      "replicate 5 (CHR ''A'') \<noteq> []"
    by (simp_all add: chunk_def)
  have c: "outputAudioContextRef ?s = Some 1" by (simp add: initial_def)
  have d: "decodeChunk stub_ap 1 (replicate 5 (CHR ''A''))
      = Inl (Exn ''byte length is not a multiple of 2'')"
    unfolding decodeChunk_stub by simp
  from C7_decode_failure_is_logged_and_dropped [OF m c d, of 3] show ?thesis
    by (simp add: chunk_def initial_def)
qed

subsection \<open>C10: a message with neither payload nor interruption\<close>

text \<open>
  C10: a message that carries no audio payload (none, or an empty one) and no
  interruption flag leaves the whole state as it was: the cursor, the trace of effects
  (so nothing is started on the sink) and every other field.
\<close>

theorem C10_empty_message_changes_nothing:
  assumes "inlineData msg = None \<or> inlineData msg = Some []" and "\<not> interrupted msg"
  shows "onmessage ap now msg s = s"
  using assms handleAudioOutput_skip [of msg s ap now]
  by (auto simp add: onmessage_def handleInterruption_def)

theorem C10_empty_message_changes_nothing_witness:
  "onmessage stub_ap 2 \<lparr> inlineData = None, interrupted = False \<rparr>
      (initial \<lparr> outputAudioContextRef := Some 1, nextStartTimeRef := 5 \<rparr>)
    = initial \<lparr> outputAudioContextRef := Some 1, nextStartTimeRef := 5 \<rparr>"
  using C10_empty_message_changes_nothing
    [of "\<lparr> inlineData = None, interrupted = False \<rparr>" stub_ap 2
     "initial \<lparr> outputAudioContextRef := Some 1, nextStartTimeRef := 5 \<rparr>"]
  by simp

subsection \<open>C6: the cursor between interruptions\<close>

lemma cleanup_cursor: "nextStartTimeRef (cleanup s) = nextStartTimeRef s"
  by (simp add: cleanup_def)

lemma connect_cursor: "nextStartTimeRef (connect r s) = nextStartTimeRef s"
  by (cases r) (simp_all add: connect_catch_def cleanup_def)

lemma onaudioprocess_cursor:
  "nextStartTimeRef (onaudioprocess ap m inputData s) = nextStartTimeRef s"
  by (simp add: onaudioprocess_def Let_def)

lemma onopen_cursor: "nextStartTimeRef (onopen source processor s) = nextStartTimeRef s"
  by (simp add: onopen_def Let_def split: option.splits)

lemma handleAudioOutput_cursor_mono:
  assumes "\<forall>ctx p b. decodeChunk ap ctx p = Inr b \<longrightarrow> 0 \<le> duration b"
  shows "nextStartTimeRef s \<le> nextStartTimeRef (handleAudioOutput ap now msg s)"
proof -
  have "nextStartTimeRef s \<le> max (nextStartTimeRef s) now + duration b"
    if "decodeChunk ap ctx p = Inr b" for ctx p b
  proof -
    have "0 \<le> duration b" using assms that by blast
    then show ?thesis by simp
  qed
  then show ?thesis
    by (simp add: handleAudioOutput_def Let_def split: option.splits sum.splits)
qed

lemma onmessage_cursor_mono:
  assumes "\<forall>ctx p b. decodeChunk ap ctx p = Inr b \<longrightarrow> 0 \<le> duration b"
    and "\<not> interrupted msg"
  shows "nextStartTimeRef s \<le> nextStartTimeRef (onmessage ap now msg s)"
  using handleAudioOutput_cursor_mono [OF assms(1), of s now msg] assms(2)
  by (simp add: onmessage_def handleInterruption_def)

lemma step_cursor_mono:
  assumes "\<forall>ctx p b. decodeChunk ap ctx p = Inr b \<longrightarrow> 0 \<le> duration b"
    and "\<not> is_interruption e"
  shows "nextStartTimeRef s \<le> nextStartTimeRef (step ap s e)"
proof (cases e)
  case (OnMessage now msg)
  then show ?thesis
    using assms onmessage_cursor_mono [OF assms(1), of msg s now]
    by (simp add: is_interruption_def)
next
  case (OnAudioProcess inputData)
  then show ?thesis
    by (simp add: onaudioprocess_cursor split: option.splits)
qed (simp_all add: toggleConnection_def cleanup_cursor connect_cursor onopen_cursor
      onclose_def onerror_def)

lemma run_append: "run ap s (es1 @ es2) = run ap (run ap s es1) es2"
  by (simp add: run_def)

lemma run_cursor_mono:
  assumes "\<forall>ctx p b. decodeChunk ap ctx p = Inr b \<longrightarrow> 0 \<le> duration b"
    and "\<forall>e \<in> set es. \<not> is_interruption e"
  shows "nextStartTimeRef s \<le> nextStartTimeRef (run ap s es)"
  using assms(2)
proof (induction es arbitrary: s)
  case Nil
  then show ?case by (simp add: run_def)
next
  case (Cons e es)
  have "nextStartTimeRef s \<le> nextStartTimeRef (step ap s e)"
    using Cons.prems by (intro step_cursor_mono [OF assms(1)]) simp
  also have "\<dots> \<le> nextStartTimeRef (run ap (step ap s e) es)"
    using Cons.prems by (intro Cons.IH) simp
  finally show ?case by (simp add: run_def)
qed

lemma stub_ap_nonneg:
  "\<forall>ctx p b. decodeChunk stub_ap ctx p = Inr b \<longrightarrow> 0 \<le> duration b"
  by (auto simp add: decodeChunk_def stub_ap_def split: if_splits)

text \<open>
  C6: let no decoded buffer have a negative duration. Then along every sequence of
  events of the component (inbound messages, and every other event as well) the cursor
  never decreases over a stretch \<open>es2\<close> that contains no message with the interruption
  flag, whatever came before it (\<open>es1\<close>). And one event that leaves the cursor lower
  than it found it is a message with the interruption flag.
\<close>

theorem C6_cursor_monotone_between_interruptions:
  assumes nonneg: "\<forall>ctx p b. decodeChunk ap ctx p = Inr b \<longrightarrow> 0 \<le> duration b"
  shows "((\<forall>e \<in> set es2. \<not> is_interruption e) \<longrightarrow>
            nextStartTimeRef (run ap s es1) \<le> nextStartTimeRef (run ap s (es1 @ es2)))
    \<and> (nextStartTimeRef (step ap s e) < nextStartTimeRef s \<longrightarrow> is_interruption e)"
proof (intro conjI impI)
  assume "\<forall>e \<in> set es2. \<not> is_interruption e"
  then show "nextStartTimeRef (run ap s es1) \<le> nextStartTimeRef (run ap s (es1 @ es2))"
    unfolding run_append by (rule run_cursor_mono [OF nonneg])
next
  assume "nextStartTimeRef (step ap s e) < nextStartTimeRef s"
  then show "is_interruption e"
    using step_cursor_mono [OF nonneg, of e s] by fastforce
qed

theorem C6_cursor_monotone_between_interruptions_witness:
  "nextStartTimeRef (run stub_ap (initial \<lparr> outputAudioContextRef := Some 1 \<rparr>)
       [OnMessage 0 (chunk 48000 False)]) = 1
   \<and> nextStartTimeRef (run stub_ap (initial \<lparr> outputAudioContextRef := Some 1 \<rparr>)
       ([OnMessage 0 (chunk 48000 False)] @ [OnMessage 0 (chunk 5 False),
          OnMessage 3 (chunk 24000 False), PowerOff])) = 7 / 2
   \<and> nextStartTimeRef (run stub_ap (initial \<lparr> outputAudioContextRef := Some 1 \<rparr>)
       [OnMessage 0 (chunk 48000 False)])
     \<le> nextStartTimeRef (run stub_ap (initial \<lparr> outputAudioContextRef := Some 1 \<rparr>)
       ([OnMessage 0 (chunk 48000 False)] @ [OnMessage 0 (chunk 5 False),
          OnMessage 3 (chunk 24000 False), PowerOff]))
   \<and> nextStartTimeRef (step stub_ap
         (initial \<lparr> outputAudioContextRef := Some 1, nextStartTimeRef := 5 \<rparr>)
         (OnMessage 2 (chunk 0 True)))
       < nextStartTimeRef (initial \<lparr> outputAudioContextRef := Some 1, nextStartTimeRef := 5 \<rparr>)
   \<and> is_interruption (OnMessage 2 (chunk 0 True))"
proof -
  let ?s = "initial \<lparr> outputAudioContextRef := Some 1 \<rparr>"
  let ?es1 = "[OnMessage 0 (chunk 48000 False)]"
  let ?es2 = "[OnMessage 0 (chunk 5 False), OnMessage 3 (chunk 24000 False), PowerOff]"
  let ?s5 = "initial \<lparr> outputAudioContextRef := Some 1, nextStartTimeRef := 5 \<rparr>"
  have a: "\<forall>e \<in> set ?es2. \<not> is_interruption e"
    by (simp add: is_interruption_def chunk_def)
  have v1: "nextStartTimeRef (run stub_ap ?s ?es1) = 1"
    by (simp add: run_def onmessage_def handleInterruption_def handleAudioOutput_def
        decodeChunk_stub chunk_def initial_def)
  have v2: "nextStartTimeRef (run stub_ap ?s (?es1 @ ?es2)) = 7 / 2"
    by (simp add: run_def onmessage_def handleInterruption_def handleAudioOutput_def
        decodeChunk_stub chunk_def initial_def cleanup_def)
  have b: "nextStartTimeRef (step stub_ap ?s5 (OnMessage 2 (chunk 0 True))) < nextStartTimeRef ?s5"
    by (simp add: onmessage_def handleInterruption_def handleAudioOutput_def chunk_def initial_def)
  have m: "nextStartTimeRef (run stub_ap ?s ?es1) \<le> nextStartTimeRef (run stub_ap ?s (?es1 @ ?es2))"
    using C6_cursor_monotone_between_interruptions
      [OF stub_ap_nonneg, where ?es2.0 = ?es2 and s = ?s and ?es1.0 = ?es1] a
    by blast
  have i: "is_interruption (OnMessage 2 (chunk 0 True))"
    using C6_cursor_monotone_between_interruptions
      [OF stub_ap_nonneg, where s = ?s5 and e = "OnMessage 2 (chunk 0 True)"] b
    by blast
  from v1 v2 m b i show ?thesis by blast
qed

subsection \<open>C3: the PCM encoder\<close>

lemma clampSample_range: "- 1 \<le> clampSample x \<and> clampSample x \<le> 1"
  by (simp add: clampSample_def)

lemma scaleSample_range:
  assumes "- 1 \<le> s" "s \<le> 1"
  shows "- 32768 \<le> scaleSample s \<and> scaleSample s \<le> 32767"
  using assms by (simp add: scaleSample_def)

lemma jsTrunc_range:
  assumes "- 32768 \<le> y" "y \<le> 32767"
  shows "- 32768 \<le> jsTrunc y \<and> jsTrunc y \<le> 32767"
proof (cases "y < 0")
  case True
  have "(- 32768 :: real) = of_int (- 32768)" by simp
  then have "- 32768 \<le> \<lceil>y\<rceil>" using assms(1) by (metis ceiling_mono ceiling_of_int)
  moreover have "\<lceil>y\<rceil> \<le> 0" using True by (simp add: ceiling_le_iff)
  ultimately show ?thesis using True by (simp add: jsTrunc_def)
next
  case False
  have "\<lfloor>y\<rfloor> \<le> 32767" using assms(2) by (simp add: floor_le_iff)
  moreover have "0 \<le> \<lfloor>y\<rfloor>" using False by simp
  ultimately show ?thesis using False by (simp add: jsTrunc_def)
qed

lemma sint_ToInt16:
  assumes "- 32768 \<le> jsTrunc y" "jsTrunc y \<le> 32767"
  shows "sint (ToInt16 y) = jsTrunc y"
proof -
  have "signed_take_bit 15 (jsTrunc y) = jsTrunc y"
    using assms by (intro signed_take_bit_int_eq_self) simp_all
  then show ?thesis by (simp add: ToInt16_def sint_sbintrunc')
qed

lemma sample_in_range:
  "- 32768 \<le> jsTrunc (scaleSample (clampSample x))
   \<and> jsTrunc (scaleSample (clampSample x)) \<le> 32767"
  using clampSample_range [of x] scaleSample_range jsTrunc_range by blast

lemma sint_encoded:
  "sint (ToInt16 (scaleSample (clampSample x))) = jsTrunc (scaleSample (clampSample x))"
  using sample_in_range [of x] by (simp add: sint_ToInt16)

lemma length_bufferBytes: "length (bufferBytes ws) = 2 * length ws"
  by (induction ws) (simp_all add: bufferBytes_def int16Bytes_def)

lemma encode_half: "ToInt16 (scaleSample (clampSample (1 / 2))) = 16383"
  by (simp add: ToInt16_def scaleSample_def clampSample_def jsTrunc_def)

lemma round_half: "round (32767 / 2 :: real) = 16384"
  by (simp add: round_def)

lemma bytes_16383: "int16Bytes 16383 = [255, 63]"
  by (simp add: int16Bytes_def)

text \<open>
  C3 says that a frame of 4096 samples at 0.5 encodes to samples equal to
  \<open>round (0.5 * 32767)\<close>, that is 16384. The array store truncates: the first sample of
  the encoded frame (as every other) is 16383.
\<close>

theorem C3_sample_is_rounded_counterexample:
  "sint (encodeInt16 (replicate 4096 (1 / 2)) ! 0) \<noteq> round ((1 / 2 :: real) * 32767)"
  by (simp add: encodeInt16_def encode_half round_half)

text \<open>
  C3, amended: for every frame, each sample is clamped to \<open>[-1, 1]\<close>, multiplied by
  32768 when negative and by 32767 otherwise, and truncated towards zero; the result
  lies between -32768 and 32767, so the 16-bit element reads back as exactly that
  integer (nothing wraps around). The buffer holds two bytes per sample, low byte
  first. In particular 4096 samples at 0.5 encode to 8192 bytes, every sample being
  16383, the truncation of \<open>0.5 * 32767\<close>.
\<close>

theorem C3_encoder_clamps_scales_truncates:
  "map sint (encodeInt16 inputData)
      = map (\<lambda>x. jsTrunc (scaleSample (clampSample x))) inputData
   \<and> (\<forall>x. - 1 \<le> clampSample x \<and> clampSample x \<le> 1
        \<and> clampSample x = (if x < - 1 then - 1 else if 1 < x then 1 else x)
        \<and> scaleSample (clampSample x)
            = (if clampSample x < 0 then clampSample x * 32768 else clampSample x * 32767)
        \<and> - 32768 \<le> jsTrunc (scaleSample (clampSample x))
        \<and> jsTrunc (scaleSample (clampSample x)) \<le> 32767)
   \<and> length (encodeInt16 inputData) = length inputData
   \<and> length (bufferBytes (encodeInt16 inputData)) = 2 * length inputData
   \<and> bufferBytes (w # ws) = ucast w # ucast (drop_bit 8 w) # bufferBytes ws
   \<and> encodeInt16 (replicate 4096 (1 / 2)) = replicate 4096 16383
   \<and> length (bufferBytes (encodeInt16 (replicate 4096 (1 / 2)))) = 8192
   \<and> jsTrunc ((1 / 2) * 32767) = 16383"
proof -
  have 1: "map sint (encodeInt16 inputData)
      = map (\<lambda>x. jsTrunc (scaleSample (clampSample x))) inputData"
    by (simp add: encodeInt16_def sint_encoded)
  have 2: "- 1 \<le> clampSample x \<and> clampSample x \<le> 1
        \<and> clampSample x = (if x < - 1 then - 1 else if 1 < x then 1 else x)
        \<and> scaleSample (clampSample x)
            = (if clampSample x < 0 then clampSample x * 32768 else clampSample x * 32767)
        \<and> - 32768 \<le> jsTrunc (scaleSample (clampSample x))
        \<and> jsTrunc (scaleSample (clampSample x)) \<le> 32767" for x
    using sample_in_range [of x] by (simp add: clampSample_def scaleSample_def)
  have 3: "length (encodeInt16 inputData) = length inputData"
    by (simp add: encodeInt16_def)
  have 4: "length (bufferBytes (encodeInt16 inputData)) = 2 * length inputData"
    by (simp add: length_bufferBytes 3)
  have 5: "bufferBytes (w # ws) = ucast w # ucast (drop_bit 8 w) # bufferBytes ws"
    by (simp add: bufferBytes_def int16Bytes_def)
  have 6: "encodeInt16 (replicate 4096 (1 / 2)) = replicate 4096 16383"
    by (simp add: encodeInt16_def encode_half)
  have 7: "length (bufferBytes (encodeInt16 (replicate 4096 (1 / 2)))) = 8192"
    by (simp add: length_bufferBytes encodeInt16_def)
  have 8: "jsTrunc ((1 / 2) * 32767) = 16383"
    by (simp add: jsTrunc_def)
  from 1 2 3 4 5 6 7 8 show ?thesis by blast
qed

theorem C3_encoder_clamps_scales_truncates_witness:
  "map sint (encodeInt16 [1 / 2, - 1 / 2, 2, - 2, 0]) = [16383, - 16384, 32767, - 32768, 0]
   \<and> bufferBytes (encodeInt16 [1 / 2]) = [255, 63]"
proof -
  have "map (\<lambda>x. jsTrunc (scaleSample (clampSample x))) [1 / 2, - 1 / 2, 2, - 2, 0 :: real]
      = [16383, - 16384, 32767, - 32768, 0]"
    by (simp add: jsTrunc_def scaleSample_def clampSample_def)
  moreover have "bufferBytes (encodeInt16 [1 / 2]) = [255, 63]"
    by (simp add: bufferBytes_def encodeInt16_def encode_half bytes_16383)
  ultimately show ?thesis
    using C3_encoder_clamps_scales_truncates [of "[1 / 2, - 1 / 2, 2, - 2, 0]"] by simp
qed

subsection \<open>C8: cleanup twice\<close>

text \<open>
  C8: from every state, a second \<open>cleanup\<close> changes nothing: the state after two calls
  is the state after one, the trace of effects included (the second call finds every
  ref empty and calls nothing). The first call disconnects the processor and the input
  source, closes both audio contexts and the session, each only if its ref holds one,
  and leaves every resource ref empty, the connected flag false and the volume 0. The
  function is total: no state makes it fail.
\<close>

theorem C8_cleanup_idempotent:
  "cleanup (cleanup s) = cleanup s
   \<and> effects (cleanup (cleanup s)) = effects (cleanup s)
   \<and> effects (cleanup s) = effects s
        @ release DisconnectNode (processorRef s)
        @ release DisconnectNode (inputSourceRef s)
        @ release CloseContext (inputAudioContextRef s)
        @ release CloseContext (outputAudioContextRef s)
        @ release CloseSession (currentSessionRef s)
   \<and> processorRef (cleanup s) = None
   \<and> inputSourceRef (cleanup s) = None
   \<and> inputAudioContextRef (cleanup s) = None
   \<and> outputAudioContextRef (cleanup s) = None
   \<and> currentSessionRef (cleanup s) = None
   \<and> sessionPromiseRef (cleanup s) = None
   \<and> \<not> isConnected (cleanup s)
   \<and> volume (cleanup s) = 0"
  by (simp add: cleanup_def releases_def release_def)

theorem C8_cleanup_idempotent_witness:
  "cleanup (initial \<lparr> isConnected := True, inputAudioContextRef := Some 1,
       outputAudioContextRef := Some 2, inputSourceRef := Some 4, processorRef := Some 5,
       currentSessionRef := Some 6, sessionPromiseRef := Some 3 \<rparr>)
     = initial \<lparr> effects := [DisconnectNode 5, DisconnectNode 4, CloseContext 1,
          CloseContext 2, CloseSession 6] \<rparr>
   \<and> cleanup (cleanup (initial \<lparr> isConnected := True, inputAudioContextRef := Some 1,
       outputAudioContextRef := Some 2, inputSourceRef := Some 4, processorRef := Some 5,
       currentSessionRef := Some 6, sessionPromiseRef := Some 3 \<rparr>))
     = initial \<lparr> effects := [DisconnectNode 5, DisconnectNode 4, CloseContext 1,
          CloseContext 2, CloseSession 6] \<rparr>"
proof -
  let ?s = "initial \<lparr> isConnected := True, inputAudioContextRef := Some 1,
       outputAudioContextRef := Some 2, inputSourceRef := Some 4, processorRef := Some 5,
       currentSessionRef := Some 6, sessionPromiseRef := Some 3 \<rparr>"
  have "cleanup ?s = initial \<lparr> effects := [DisconnectNode 5, DisconnectNode 4, CloseContext 1,
          CloseContext 2, CloseSession 6] \<rparr>"
    by (simp add: cleanup_def releases_def release_def initial_def)
  with C8_cleanup_idempotent [of ?s] show ?thesis by (simp add: initial_def release_def)
qed

subsection \<open>C9: a transport error, a failed start\<close>

lemma acquired_append: "acquired (xs @ ys) = acquired xs @ acquired ys"
  by (induction xs rule: acquired.induct) simp_all

lemma released_append: "released (xs @ ys) = released xs @ released ys"
  by (induction xs rule: released.induct) simp_all

text \<open>
  What \<open>cleanup\<close> releases is what the five refs hold, and nothing else; it acquires
  nothing.
\<close>

lemma cleanup_released:
  "released (effects (cleanup s)) = released (effects s) @ held s
   \<and> acquired (effects (cleanup s)) = acquired (effects s)"
  by (simp add: cleanup_def releases_def release_def held_def released_append acquired_append
      split: option.splits)

text \<open>
  What the two error paths do: the message is set, \<open>cleanup\<close> runs, the connected flag
  is false and the five refs and the session promise are empty afterwards.
\<close>

lemma onerror_teardown:
  "error (onerror s) = Some ''Connection error. Please try again.''
   \<and> effects (onerror s) = effects s @ [ConsoleError ''Session Error''] @ releases s
   \<and> \<not> isConnected (onerror s)
   \<and> processorRef (onerror s) = None \<and> inputSourceRef (onerror s) = None
   \<and> inputAudioContextRef (onerror s) = None \<and> outputAudioContextRef (onerror s) = None
   \<and> currentSessionRef (onerror s) = None \<and> sessionPromiseRef (onerror s) = None
   \<and> acquired (effects (onerror s)) = acquired (effects s)
   \<and> released (effects (onerror s)) = released (effects s) @ held s"
  by (simp add: onerror_def cleanup_def releases_def release_def held_def released_append
      acquired_append split: option.splits)

lemma connect_throws_teardown:
  assumes "throws r"
  shows "(\<exists>message. error (connect r s) = Some message \<and> message \<noteq> [])
   \<and> \<not> isConnected (connect r s)
   \<and> processorRef (connect r s) = None \<and> inputSourceRef (connect r s) = None
   \<and> inputAudioContextRef (connect r s) = None \<and> outputAudioContextRef (connect r s) = None
   \<and> currentSessionRef (connect r s) = None \<and> sessionPromiseRef (connect r s) = None"
  using assms by (cases r) (simp_all add: throws_def connect_catch_def cleanup_def)

text \<open>
  C9 says that a transport error, and a failed start, release all resources, the
  capture source and the transport handle among them. The code does not release the
  capture source. In the first run below a session is started (the microphone request
  resolves with stream 20), opens and resolves, and then the transport reports an
  error: the message is set, the flag is false, the refs are empty, and the trace shows
  every call that was made. The nodes 5 and 4, the contexts 1 and 2 and the session 6
  are released; stream 20 was acquired and no call is made on it. In the second run the
  start fails after the microphone and both contexts were obtained: the contexts are
  closed, stream 20 is not touched. In the third the session does not open and the
  transport reports the error first: the session promise has not resolved, there is no
  session in the ref, and no \<open>close\<close> of a session is called; stream 20 is not touched
  either.
\<close>

theorem C9_stream_survives_teardown:
  "effects (run stub_ap initial
      [ToggleConnection (Returns 20 1 2 3), OnOpen 4 5, SessionResolved 6, OnError])
     = [GetUserMedia 20, ConsoleLog ''Live Session Opened'', WireCapture 4 5,
        ConsoleError ''Session Error'', DisconnectNode 5, DisconnectNode 4,
        CloseContext 1, CloseContext 2, CloseSession 6]
   \<and> acquired (effects (run stub_ap initial
      [ToggleConnection (Returns 20 1 2 3), OnOpen 4 5, SessionResolved 6, OnError])) = [20]
   \<and> released (effects (run stub_ap initial
      [ToggleConnection (Returns 20 1 2 3), OnOpen 4 5, SessionResolved 6, OnError]))
     = [5, 4, 1, 2, 6]
   \<and> error (run stub_ap initial
      [ToggleConnection (Returns 20 1 2 3), OnOpen 4 5, SessionResolved 6, OnError])
     = Some ''Connection error. Please try again.''
   \<and> \<not> isConnected (run stub_ap initial
      [ToggleConnection (Returns 20 1 2 3), OnOpen 4 5, SessionResolved 6, OnError])
   \<and> held (run stub_ap initial
      [ToggleConnection (Returns 20 1 2 3), OnOpen 4 5, SessionResolved 6, OnError]) = []
   \<and> effects (run stub_ap initial
      [ToggleConnection (Throws_afterContexts 20 1 2 ''no key'')])
     = [GetUserMedia 20, ConsoleError ''no key'', CloseContext 1, CloseContext 2]
   \<and> error (run stub_ap initial
      [ToggleConnection (Throws_afterContexts 20 1 2 ''no key'')]) = Some ''no key''
   \<and> effects (run stub_ap initial [ToggleConnection (Returns 20 1 2 3), OnError])
     = [GetUserMedia 20, ConsoleError ''Session Error'', CloseContext 1, CloseContext 2]"
  by (simp add: run_def toggleConnection_def onopen_def onerror_def connect_catch_def
      initial_def cleanup_def releases_def release_def held_def)

subsection \<open>C4: a second session after a stop\<close>

text \<open>
  C4 asks that a session started after a stop sees nothing of the session before it, the
  cursor in particular. Neither \<open>cleanup\<close> nor \<open>connect\<close> assigns \<open>nextStartTimeRef\<close>.
  In the run below a first session plays one chunk of 5 s with its clock at 0; the user
  stops it and starts again. The cursor of the second session is still 5, and its first
  chunk, arriving with the new output clock at 0, is started at 5 and not at 0.
\<close>

theorem C4_cursor_survives_restart:
  "nextStartTimeRef (run stub_ap initial
      [ToggleConnection (Returns 20 1 2 3), OnOpen 4 5, SessionResolved 6,
       OnMessage 0 (chunk 240000 False),
       PowerOff,
       ToggleConnection (Returns 21 7 8 9), OnOpen 10 11, SessionResolved 12]) = 5
   \<and> scheduled (effects (run stub_ap initial
      [ToggleConnection (Returns 20 1 2 3), OnOpen 4 5, SessionResolved 6,
       OnMessage 0 (chunk 240000 False),
       PowerOff,
       ToggleConnection (Returns 21 7 8 9), OnOpen 10 11, SessionResolved 12,
       OnMessage 0 (chunk 48000 False)]))
     = [(\<lparr> duration = 5 \<rparr>, 0), (\<lparr> duration = 1 \<rparr>, 5)]"
  by (simp add: run_def toggleConnection_def onopen_def initial_def cleanup_def releases_def
      release_def onmessage_def handleInterruption_def handleAudioOutput_def decodeChunk_stub
      chunk_def)

subsection \<open>C5: frames while muted\<close>

text \<open>
  C5 asks that no frame is sent while the mute flag is set, and that every frame is sent
  while it is not. The capture callback tests the \<open>isMuted\<close> of its closure, fixed when
  \<open>connect\<close> was called, not the flag the mute button has set since. In the first run
  below the session starts unmuted, the user mutes, and the next frame is sent all the
  same (its amplitude is published, as the claim says). In the second the user mutes,
  stops, starts again and unmutes: the flag is off and the frame is not sent.
\<close>

theorem C5_mute_flag_is_not_what_gates_sending:
  "isMuted (run stub_ap initial
      [ToggleConnection (Returns 20 1 2 3), OnOpen 4 5, SessionResolved 6,
       ToggleMute, OnAudioProcess [1 / 2, 1 / 2]])
   \<and> sends (effects (run stub_ap initial
      [ToggleConnection (Returns 20 1 2 3), OnOpen 4 5, SessionResolved 6,
       ToggleMute, OnAudioProcess [1 / 2, 1 / 2]]))
     = [arrayBufferToBase64 stub_ap (bufferBytes (encodeInt16 [1 / 2, 1 / 2]))]
   \<and> volume (run stub_ap initial
      [ToggleConnection (Returns 20 1 2 3), OnOpen 4 5, SessionResolved 6,
       ToggleMute, OnAudioProcess [1 / 2, 1 / 2]]) = rms [1 / 2, 1 / 2]
   \<and> sends (effects (run stub_ap initial
      [ToggleConnection (Returns 20 1 2 3), OnOpen 4 5, SessionResolved 6,
       ToggleMute, PowerOff, ToggleConnection (Returns 21 7 8 9), OnOpen 10 11,
       SessionResolved 12, ToggleMute, OnAudioProcess [1 / 2, 1 / 2]])) = []
   \<and> \<not> isMuted (run stub_ap initial
      [ToggleConnection (Returns 20 1 2 3), OnOpen 4 5, SessionResolved 6,
       ToggleMute, PowerOff, ToggleConnection (Returns 21 7 8 9), OnOpen 10 11,
       SessionResolved 12, ToggleMute, OnAudioProcess [1 / 2, 1 / 2]])"
  by (simp add: run_def toggleConnection_def onopen_def initial_def onaudioprocess_def
      cleanup_def releases_def release_def)

end
